theory Spec2Isabelle
  imports Main
begin

section \<open>Data model (src/app.py, lines 21-55)\<close>

text \<open>
  The four SQLAlchemy models become records. Each model has an \<open>id\<close> column and two of
  them a \<open>user_id\<close> column; record fields are global names, so those are suffixed with
  the model they belong to. The foreign-key columns are nullable in the schema, but every
  row a handler inserts carries an integer there (\<open>session['user_id']\<close> after a login, or
  an integer URL parameter), so they are typed \<open>int\<close>. \<open>status\<close> is the
  string column of the source. Timestamps (\<open>datetime.utcnow\<close>) are natural numbers read
  from the environment of the call.
\<close>

record user =
  id_user :: int
  username :: string
  password :: string
  photo :: "string option"
  wallpaper :: "string option"
  bio :: "string option"
  created_at :: nat

record post =
  id_post :: int
  title :: string
  content :: string
  user_id_post :: int
  timestamp_post :: nat

record friend_request =
  id_fr :: int
  sender_id :: int
  receiver_id :: int
  status :: string

record notification =
  id_note :: int
  user_id_note :: int
  message :: string
  timestamp_note :: nat

text \<open>The database: one list of rows per table, in insertion order.\<close>

record store =
  tbl_user :: "user list"
  tbl_post :: "post list"
  tbl_friend_request :: "friend_request list"
  tbl_notification :: "notification list"

section \<open>Requests, environment, responses\<close>

datatype http_method = GET | POST

text \<open>
  \<open>request.form\<close> and \<open>request.files\<close> as maps from field names; a file is
  represented by its file name (the only attribute the handlers read).
\<close>

record request =
  req_method :: http_method
  form :: "string \<rightharpoonup> string"
  files :: "string \<rightharpoonup> string"

text \<open>
  What a handler takes from outside the repository: the clock, werkzeug's password
  hashing (salted, so \<open>generate_password_hash\<close> is the hashing of this call), werkzeug's
  \<open>secure_filename\<close>, and whether \<open>FileStorage.save\<close> succeeds in writing an upload under the
  given file name (it raises otherwise).
\<close>

record env =
  now :: nat
  generate_password_hash :: "string \<Rightarrow> string"
  check_password_hash :: "string \<Rightarrow> string \<Rightarrow> bool"
  secure_filename :: "string \<Rightarrow> string"
  file_save :: "string \<Rightarrow> bool"

text \<open>
  A response is a redirect to \<open>url_for(endpoint)\<close>, a rendered template with the values
  passed to it, an abort with a status code (404 from \<open>get_or_404\<close>/\<open>first_or_404\<close>, 400
  from a missing form key), or the 500 of an uncaught \<open>AttributeError\<close>.
\<close>

datatype response =
    Redirect string
  | Render_home "user option" "post list"
  | Render_register
  | Render_login
  | Render_create
  | Render_edit post
  | Render_user_posts "post list" user
  | Render_friends "user list"
  | Render_friend_requests "friend_request list"
  | Render_search "user list"
  | Render_profile user nat nat "notification list"
  | Render_edit_profile "user option"
  | Abort nat
  | Server_Error

text \<open>
  The outcome of one handler call: the response, the messages passed to \<open>flash\<close>, the
  \<open>user_id\<close> entry of the session afterwards (\<open>None\<close>: no such key) and the committed
  database.
\<close>

record outcome =
  response :: response
  flashed :: "string list"
  session_after :: "int option"
  store_after :: store

definition reply :: "response \<Rightarrow> string list \<Rightarrow> int option \<Rightarrow> store \<Rightarrow> outcome" where
  "reply r fl sess db = \<lparr>response = r, flashed = fl, session_after = sess, store_after = db\<rparr>"

section \<open>Queries\<close>

text \<open>
  A new row of an \<open>INTEGER PRIMARY KEY\<close> table of SQLite gets 1 in an empty table and one
  more than the largest key in use otherwise.
\<close>

fun next_id :: "int list \<Rightarrow> int" where
  "next_id [] = 1"
| "next_id (i # js) = fold max js i + 1"

text \<open>
  An integer column of SQLite holds a signed 64-bit integer, and the driver binds no other
  integer to a query: it raises \<open>OverflowError\<close>, which no handler catches (a 500).
  Flask's \<open>int\<close> URL converter accepts any sequence of digits, so such an id can arrive.
\<close>

definition sqlite_int :: "int \<Rightarrow> bool" where
  "sqlite_int i \<longleftrightarrow> - (2 ^ 63) \<le> i \<and> i < 2 ^ 63"

text \<open>
  \<open>User.query.get(id)\<close>. The handlers call it with \<open>session['user_id']\<close> or with the receiver
  of a stored request; an integer outside the 64-bit range is the key of no row.
\<close>

definition get_user :: "store \<Rightarrow> int \<Rightarrow> user option" where
  "get_user db i = (if sqlite_int i then find (\<lambda>u. id_user u = i) (tbl_user db) else None)"

text \<open>
  The row with a given primary key in the tables of posts and of friend requests, as
  \<open>Model.query.get_or_404(id)\<close> selects it. When there is no such row the handler answers
  with \<open>not_found\<close>: 404, or, for an id that cannot be bound (and so is the key of no row),
  the 500 of the \<open>OverflowError\<close>.
\<close>

definition not_found :: "int \<Rightarrow> response" where
  "not_found i = (if sqlite_int i then Abort 404 else Server_Error)"

definition get_post :: "store \<Rightarrow> int \<Rightarrow> post option" where
  "get_post db i = find (\<lambda>p. id_post p = i) (tbl_post db)"

definition get_friend_request :: "store \<Rightarrow> int \<Rightarrow> friend_request option" where
  "get_friend_request db i = find (\<lambda>r. id_fr r = i) (tbl_friend_request db)"

text \<open>\<open>User.query.filter_by(username=username).first()\<close>\<close>

definition user_by_username :: "store \<Rightarrow> string \<Rightarrow> user option" where
  "user_by_username db name = find (\<lambda>u. username u = name) (tbl_user db)"

text \<open>
  \<open>order_by(column.desc())\<close>: largest key first; rows with equal keys stay in the order of
  the table, which is how SQLite returns them.
\<close>

definition order_desc :: "('a \<Rightarrow> nat) \<Rightarrow> 'a list \<Rightarrow> 'a list" where
  "order_desc key xs = sort_key (\<lambda>x. - int (key x)) xs"

text \<open>
  \<open>User.username.contains(query)\<close> is the SQL condition
  \<open>username LIKE '%' || query || '%'\<close>; SQLAlchemy does not escape the query unless asked
  to, and the source does not ask. In SQLite's \<open>LIKE\<close> a \<open>%\<close> of the pattern matches any
  sequence of characters, a \<open>_\<close> any one character, and any other character itself or the
  same ASCII letter in the other case. A \<open>char\<close> stands for one character of the text.
\<close>

definition ascii_lower :: "char \<Rightarrow> char" where
  "ascii_lower c =
     (case map_of (zip ''ABCDEFGHIJKLMNOPQRSTUVWXYZ'' ''abcdefghijklmnopqrstuvwxyz'') c of
        Some l \<Rightarrow> l
      | None \<Rightarrow> c)"

fun like :: "string \<Rightarrow> string \<Rightarrow> bool" where
  "like [] s = (s = [])"
| "like (p # ps) [] = (p = CHR ''%'' \<and> like ps [])"
| "like (p # ps) (c # cs) =
     (if p = CHR ''%'' then like ps (c # cs) \<or> like (p # ps) cs
      else (p = CHR ''_'' \<or> ascii_lower p = ascii_lower c) \<and> like ps cs)"

definition username_contains :: "string \<Rightarrow> string \<Rightarrow> bool" where
  "username_contains name q = like (CHR ''%'' # q @ [CHR ''%'']) name"

text \<open>The \<open>friends_count\<close> property of \<open>User\<close> (lines 31-35).\<close>

definition friends_count :: "store \<Rightarrow> user \<Rightarrow> nat" where
  "friends_count db u =
     (let sent = length (filter (\<lambda>r. sender_id r = id_user u \<and> status r = ''accepted'')
                           (tbl_friend_request db));
          received = length (filter (\<lambda>r. receiver_id r = id_user u \<and> status r = ''accepted'')
                               (tbl_friend_request db))
      in sent + received)"

text \<open>The context processor \<open>inject_notifications\<close> (lines 58-65).\<close>

definition inject_notifications :: "int option \<Rightarrow> store \<Rightarrow> notification list" where
  "inject_notifications sess db =
     (case sess of
        None \<Rightarrow> []
      | Some uid \<Rightarrow>
          take 5 (order_desc timestamp_note
                    (filter (\<lambda>n. user_id_note n = uid) (tbl_notification db))))"

section \<open>Route handlers (lines 67-250)\<close>

definition home :: "int option \<Rightarrow> store \<Rightarrow> outcome" where
  "home sess db =
     (case sess of
        None \<Rightarrow> reply (Redirect ''login'') [] sess db
      | Some uid \<Rightarrow>
          reply (Render_home (get_user db uid) (order_desc timestamp_post (tbl_post db)))
            [] sess db)"

definition register :: "env \<Rightarrow> request \<Rightarrow> int option \<Rightarrow> store \<Rightarrow> outcome" where
  "register e req sess db =
     (if req_method req = POST then
        (case form req ''username'' of
           None \<Rightarrow> reply (Abort 400) [] sess db
         | Some uname \<Rightarrow>
            (case form req ''password'' of
               None \<Rightarrow> reply (Abort 400) [] sess db
             | Some raw \<Rightarrow>
                (let pw = generate_password_hash e raw in
                 if user_by_username db uname \<noteq> None then
                   reply (Redirect ''register'') [''Username already exists.''] sess db
                 else
                   reply (Redirect ''login'') [''Registration successful. Please log in.''] sess
                     (db\<lparr>tbl_user := tbl_user db @
                          [\<lparr>id_user = next_id (map id_user (tbl_user db)),
                             username = uname, password = pw, photo = None,
                             wallpaper = None, bio = None, created_at = now e\<rparr>]\<rparr>))))
      else reply Render_register [] sess db)"

definition login :: "env \<Rightarrow> request \<Rightarrow> int option \<Rightarrow> store \<Rightarrow> outcome" where
  "login e req sess db =
     (if req_method req = POST then
        (case form req ''username'' of
           None \<Rightarrow> reply (Abort 400) [] sess db
         | Some uname \<Rightarrow>
            (case form req ''password'' of
               None \<Rightarrow> reply (Abort 400) [] sess db
             | Some raw \<Rightarrow>
                (case user_by_username db uname of
                   Some u \<Rightarrow>
                     if check_password_hash e (password u) raw then
                       reply (Redirect ''home'') [''Login successful.''] (Some (id_user u)) db
                     else reply Render_login [''Invalid credentials.''] sess db
                 | None \<Rightarrow> reply Render_login [''Invalid credentials.''] sess db)))
      else reply Render_login [] sess db)"

definition logout :: "int option \<Rightarrow> store \<Rightarrow> outcome" where
  "logout sess db = reply (Redirect ''login'') [''Logged out.''] None db"

definition create :: "env \<Rightarrow> request \<Rightarrow> int option \<Rightarrow> store \<Rightarrow> outcome" where
  "create e req sess db =
     (case sess of
        None \<Rightarrow> reply (Redirect ''login'') [] sess db
      | Some uid \<Rightarrow>
          if req_method req = POST then
            (case form req ''title'' of
               None \<Rightarrow> reply (Abort 400) [] sess db
             | Some t \<Rightarrow>
                (case form req ''content'' of
                   None \<Rightarrow> reply (Abort 400) [] sess db
                 | Some c \<Rightarrow>
                     reply (Redirect ''home'') [] sess
                       (db\<lparr>tbl_post := tbl_post db @
                            [\<lparr>id_post = next_id (map id_post (tbl_post db)), title = t,
                               content = c, user_id_post = uid, timestamp_post = now e\<rparr>]\<rparr>)))
          else reply Render_create [] sess db)"

text \<open>
  \<open>edit\<close> assigns \<open>post.title\<close> before it reads \<open>request.form['content']\<close>; a missing
  key raises before the commit, so nothing is written. The committed UPDATE and DELETE
  address the row by its primary key.
\<close>

definition edit :: "int \<Rightarrow> request \<Rightarrow> int option \<Rightarrow> store \<Rightarrow> outcome" where
  "edit pid req sess db =
     (case get_post db pid of
        None \<Rightarrow> reply (not_found pid) [] sess db
      | Some p \<Rightarrow>
          if sess \<noteq> Some (user_id_post p) then reply (Redirect ''home'') [] sess db
          else if req_method req = POST then
            (case form req ''title'' of
               None \<Rightarrow> reply (Abort 400) [] sess db
             | Some t \<Rightarrow>
                (case form req ''content'' of
                   None \<Rightarrow> reply (Abort 400) [] sess db
                 | Some c \<Rightarrow>
                     reply (Redirect ''home'') [] sess
                       (db\<lparr>tbl_post :=
                            map (\<lambda>q. if id_post q = id_post p then q\<lparr>title := t, content := c\<rparr>
                                      else q) (tbl_post db)\<rparr>)))
          else reply (Render_edit p) [] sess db)"

definition delete :: "int \<Rightarrow> int option \<Rightarrow> store \<Rightarrow> outcome" where
  "delete pid sess db =
     (case get_post db pid of
        None \<Rightarrow> reply (not_found pid) [] sess db
      | Some p \<Rightarrow>
          if sess = Some (user_id_post p) then
            reply (Redirect ''home'') [] sess
              (db\<lparr>tbl_post := filter (\<lambda>q. id_post q \<noteq> id_post p) (tbl_post db)\<rparr>)
          else reply (Redirect ''home'') [] sess db)"

definition user_posts :: "string \<Rightarrow> int option \<Rightarrow> store \<Rightarrow> outcome" where
  "user_posts uname sess db =
     (case user_by_username db uname of
        None \<Rightarrow> reply (Abort 404) [] sess db
      | Some u \<Rightarrow>
          reply (Render_user_posts (filter (\<lambda>p. user_id_post p = id_user u) (tbl_post db)) u)
            [] sess db)"

text \<open>
  \<open>send_request\<close>: the message of the notification reads the \<open>username\<close> of
  \<open>User.query.get(session['user_id'])\<close>; when the session names no stored user that is an
  \<open>AttributeError\<close> on \<open>None\<close> before the commit. The receiver id comes from the URL and is
  not looked up; SQLite does not enforce foreign keys unless asked to, and the source
  does not ask. The first query binds the receiver id, so an id outside the 64-bit range
  raises there, after the session test and before anything is added.
\<close>

definition send_request :: "env \<Rightarrow> int \<Rightarrow> int option \<Rightarrow> store \<Rightarrow> outcome" where
  "send_request e rcv sess db =
     (case sess of
        None \<Rightarrow> reply (Redirect ''login'') [] sess db
      | Some uid \<Rightarrow>
          if \<not> sqlite_int rcv then reply Server_Error [] sess db
          else
          (case find (\<lambda>r. sender_id r = uid \<and> receiver_id r = rcv)
                  (tbl_friend_request db) of
             None \<Rightarrow>
               (case get_user db uid of
                  None \<Rightarrow> reply Server_Error [] sess db
                | Some u \<Rightarrow>
                    reply (Redirect ''search_users'') [''Friend request sent.''] sess
                      (db\<lparr>tbl_friend_request := tbl_friend_request db @
                             [\<lparr>id_fr = next_id (map id_fr (tbl_friend_request db)),
                                sender_id = uid, receiver_id = rcv, status = ''pending''\<rparr>],
                           tbl_notification := tbl_notification db @
                             [\<lparr>id_note = next_id (map id_note (tbl_notification db)),
                                user_id_note = rcv,
                                message = username u @ '' sent you a friend request!'',
                                timestamp_note = now e\<rparr>]\<rparr>))
           | Some existing_request \<Rightarrow>
               reply (Redirect ''search_users'') [''Friend request already sent.''] sess db))"

text \<open>
  \<open>accept_request\<close> and \<open>reject_request\<close> compare the receiver with
  \<open>session.get('user_id')\<close>, which is \<open>None\<close> without a session. The notification's
  message reads the \<open>username\<close> of \<open>User.query.get(fr.receiver_id)\<close>.
\<close>

definition accept_request :: "env \<Rightarrow> int \<Rightarrow> int option \<Rightarrow> store \<Rightarrow> outcome" where
  "accept_request e rid sess db =
     (case get_friend_request db rid of
        None \<Rightarrow> reply (not_found rid) [] sess db
      | Some fr \<Rightarrow>
          if Some (receiver_id fr) = sess then
            (case get_user db (receiver_id fr) of
               None \<Rightarrow> reply Server_Error [] sess db
             | Some u \<Rightarrow>
                 reply (Redirect ''friend_requests'') [''Friend request accepted.''] sess
                   (db\<lparr>tbl_friend_request :=
                          map (\<lambda>r. if id_fr r = id_fr fr then r\<lparr>status := ''accepted''\<rparr> else r)
                            (tbl_friend_request db),
                        tbl_notification := tbl_notification db @
                          [\<lparr>id_note = next_id (map id_note (tbl_notification db)),
                             user_id_note = sender_id fr,
                             message = username u @ '' accepted your friend request!'',
                             timestamp_note = now e\<rparr>]\<rparr>))
          else reply (Redirect ''friend_requests'') [] sess db)"

definition reject_request :: "env \<Rightarrow> int \<Rightarrow> int option \<Rightarrow> store \<Rightarrow> outcome" where
  "reject_request e rid sess db =
     (case get_friend_request db rid of
        None \<Rightarrow> reply (not_found rid) [] sess db
      | Some fr \<Rightarrow>
          if Some (receiver_id fr) = sess then
            (case get_user db (receiver_id fr) of
               None \<Rightarrow> reply Server_Error [] sess db
             | Some u \<Rightarrow>
                 reply (Redirect ''friend_requests'') [''Friend request rejected.''] sess
                   (db\<lparr>tbl_friend_request :=
                          map (\<lambda>r. if id_fr r = id_fr fr then r\<lparr>status := ''rejected''\<rparr> else r)
                            (tbl_friend_request db),
                        tbl_notification := tbl_notification db @
                          [\<lparr>id_note = next_id (map id_note (tbl_notification db)),
                             user_id_note = sender_id fr,
                             message = username u @ '' rejected your friend request.'',
                             timestamp_note = now e\<rparr>]\<rparr>))
          else reply (Redirect ''friend_requests'') [] sess db)"

definition friends :: "int option \<Rightarrow> store \<Rightarrow> outcome" where
  "friends sess db =
     (case sess of
        None \<Rightarrow> reply (Redirect ''login'') [] sess db
      | Some uid \<Rightarrow>
          (let sent = filter (\<lambda>r. sender_id r = uid \<and> status r = ''accepted'')
                        (tbl_friend_request db);
               received = filter (\<lambda>r. receiver_id r = uid \<and> status r = ''accepted'')
                            (tbl_friend_request db);
               friend_ids = map receiver_id sent @ map sender_id received
           in reply (Render_friends (filter (\<lambda>u. id_user u \<in> set friend_ids) (tbl_user db)))
                [] sess db))"

definition friend_requests :: "int option \<Rightarrow> store \<Rightarrow> outcome" where
  "friend_requests sess db =
     (case sess of
        None \<Rightarrow> reply (Redirect ''login'') [] sess db
      | Some uid \<Rightarrow>
          reply (Render_friend_requests
                   (filter (\<lambda>r. receiver_id r = uid \<and> status r = ''pending'')
                      (tbl_friend_request db)))
            [] sess db)"

definition search_users :: "env \<Rightarrow> request \<Rightarrow> int option \<Rightarrow> store \<Rightarrow> outcome" where
  "search_users e req sess db =
     (case sess of
        None \<Rightarrow> reply (Redirect ''login'') [] sess db
      | Some uid \<Rightarrow>
          if req_method req = POST then
            (case form req ''query'' of
               None \<Rightarrow> reply (Abort 400) [] sess db
             | Some query \<Rightarrow>
                (let sent = filter (\<lambda>r. sender_id r = uid) (tbl_friend_request db);
                     received = filter (\<lambda>r. receiver_id r = uid) (tbl_friend_request db);
                     excluded_ids = [uid] @ (map receiver_id sent @ map sender_id received)
                 in reply (Render_search
                             (filter (\<lambda>u. username_contains (username u) query \<and>
                                           id_user u \<notin> set excluded_ids) (tbl_user db)))
                      [] sess db))
          else reply (Render_search []) [] sess db)"

text \<open>
  \<open>profile\<close> reads \<open>user.id\<close> of \<open>User.query.get(session['user_id'])\<close>, an
  \<open>AttributeError\<close> when the session names no stored user.
\<close>

definition profile :: "int option \<Rightarrow> store \<Rightarrow> outcome" where
  "profile sess db =
     (case sess of
        None \<Rightarrow> reply (Redirect ''login'') [] sess db
      | Some uid \<Rightarrow>
          (case get_user db uid of
             None \<Rightarrow> reply Server_Error [] sess db
           | Some u \<Rightarrow>
               reply (Render_profile u
                        (length (filter (\<lambda>p. user_id_post p = id_user u) (tbl_post db)))
                        (friends_count db u)
                        (take 5 (order_desc timestamp_note
                                   (filter (\<lambda>n. user_id_note n = id_user u)
                                      (tbl_notification db)))))
                 [] sess db))"

text \<open>
  \<open>edit_profile\<close>: \<open>request.form['bio']\<close> is evaluated before the assignment to
  \<open>user.bio\<close>, so a missing key aborts with 400 before a missing user raises. A
  \<open>FileStorage\<close> is true when its file name is not empty. Saving the file writes to the
  upload folder, not to the database; when \<open>save\<close> raises, the request ends in a 500
  before the commit. The photo is saved before the wallpaper is looked at.
  \<open>uploaded\<close> gives the new value of the column, or \<open>None\<close> when the save raised.
\<close>

definition uploaded ::
  "env \<Rightarrow> request \<Rightarrow> string \<Rightarrow> string option \<Rightarrow> string option option" where
  "uploaded e req field old =
     (case files req field of
        None \<Rightarrow> Some old
      | Some fname \<Rightarrow>
          if fname \<noteq> [] then
            (if file_save e (secure_filename e fname) then Some (Some (secure_filename e fname))
             else None)
          else Some old)"

definition edit_profile :: "env \<Rightarrow> request \<Rightarrow> int option \<Rightarrow> store \<Rightarrow> outcome" where
  "edit_profile e req sess db =
     (case sess of
        None \<Rightarrow> reply (Redirect ''login'') [] sess db
      | Some uid \<Rightarrow>
          if req_method req = POST then
            (case form req ''bio'' of
               None \<Rightarrow> reply (Abort 400) [] sess db
             | Some b \<Rightarrow>
                (case get_user db uid of
                   None \<Rightarrow> reply Server_Error [] sess db
                 | Some u \<Rightarrow>
                    (case uploaded e req ''photo'' (photo u) of
                       None \<Rightarrow> reply Server_Error [] sess db
                     | Some ph \<Rightarrow>
                        (case uploaded e req ''wallpaper'' (wallpaper u) of
                           None \<Rightarrow> reply Server_Error [] sess db
                         | Some wp \<Rightarrow>
                             reply (Redirect ''profile'') [''Profile updated!''] sess
                               (db\<lparr>tbl_user :=
                                    map (\<lambda>v. if id_user v = id_user u then
                                                v\<lparr>bio := Some b, photo := ph, wallpaper := wp\<rparr>
                                              else v) (tbl_user db)\<rparr>)))))
          else reply (Render_edit_profile (get_user db uid)) [] sess db)"

section \<open>The routes as one transition function\<close>

datatype route =
    Home
  | Register request
  | Login request
  | Logout
  | Create request
  | Edit int request
  | Delete int
  | User_posts string
  | Send_request int
  | Accept_request int
  | Reject_request int
  | Friends
  | Friend_requests
  | Search_users request
  | Profile
  | Edit_profile request

fun handle :: "env \<Rightarrow> route \<Rightarrow> int option \<Rightarrow> store \<Rightarrow> outcome" where
  "handle e Home sess db = home sess db"
| "handle e (Register req) sess db = register e req sess db"
| "handle e (Login req) sess db = login e req sess db"
| "handle e Logout sess db = logout sess db"
| "handle e (Create req) sess db = create e req sess db"
| "handle e (Edit pid req) sess db = edit pid req sess db"
| "handle e (Delete pid) sess db = delete pid sess db"
| "handle e (User_posts uname) sess db = user_posts uname sess db"
| "handle e (Send_request rcv) sess db = send_request e rcv sess db"
| "handle e (Accept_request rid) sess db = accept_request e rid sess db"
| "handle e (Reject_request rid) sess db = reject_request e rid sess db"
| "handle e Friends sess db = friends sess db"
| "handle e Friend_requests sess db = friend_requests sess db"
| "handle e (Search_users req) sess db = search_users e req sess db"
| "handle e Profile sess db = profile sess db"
| "handle e (Edit_profile req) sess db = edit_profile e req sess db"

text \<open>
  The routes that consult the session. \<open>register\<close>, \<open>login\<close>, \<open>logout\<close> and \<open>user_posts\<close>
  never read it.
\<close>

fun protected :: "route \<Rightarrow> bool" where
  "protected (Register req) = False"
| "protected (Login req) = False"
| "protected Logout = False"
| "protected (User_posts uname) = False"
| "protected r = True"

text \<open>
  Several calls of \<open>accept_request\<close> on one request id from one session, one after the
  other on the database the previous call committed; each call has its own environment.
\<close>

definition accept_repeatedly :: "env list \<Rightarrow> int \<Rightarrow> int option \<Rightarrow> store \<Rightarrow> store" where
  "accept_repeatedly es rid sess db =
     fold (\<lambda>e d. store_after (accept_request e rid sess d)) es db"

section \<open>The wording of the search claim\<close>


section \<open>Example data\<close>

definition example_env :: env where
  "example_env = \<lparr>now = 10, generate_password_hash = (\<lambda>raw. ''h:'' @ raw),
       check_password_hash = (\<lambda>h raw. h = ''h:'' @ raw), secure_filename = (\<lambda>f. f),
       file_save = (\<lambda>f. True)\<rparr>"

definition alice :: user where
  "alice = \<lparr>id_user = 1, username = ''alice'', password = ''h:secret'', photo = None,
            wallpaper = None, bio = None, created_at = 0\<rparr>"

definition bob :: user where
  "bob = \<lparr>id_user = 2, username = ''bob'', password = ''h:hunter2'', photo = None,
          wallpaper = None, bio = None, created_at = 1\<rparr>"

definition carol :: user where
  "carol = \<lparr>id_user = 3, username = ''carol'', password = ''h:pw'', photo = None,
            wallpaper = None, bio = None, created_at = 2\<rparr>"

definition alice_post :: post where
  "alice_post = \<lparr>id_post = 1, title = ''Hello'', content = ''First post'', user_id_post = 1,
                 timestamp_post = 3\<rparr>"

definition example_store :: store where
  "example_store = \<lparr>tbl_user = [alice, bob, carol], tbl_post = [alice_post],
       tbl_friend_request = [], tbl_notification = []\<rparr>"


definition login_request :: "string \<Rightarrow> string \<Rightarrow> request" where
  "login_request name raw =
     \<lparr>req_method = POST, form = [''username'' \<mapsto> name, ''password'' \<mapsto> raw], files = Map.empty\<rparr>"


definition alice_to_bob :: friend_request where
  "alice_to_bob = \<lparr>id_fr = 1, sender_id = 1, receiver_id = 2, status = ''pending''\<rparr>"

definition pending_store :: store where
  "pending_store = example_store\<lparr>tbl_friend_request := [alice_to_bob]\<rparr>"

definition accepted_store :: store where
  "accepted_store = example_store\<lparr>tbl_friend_request := [alice_to_bob\<lparr>status := ''accepted''\<rparr>]\<rparr>"

section \<open>Auxiliary facts\<close>

lemma find_by_key:
  "distinct (map f xs) \<Longrightarrow> x \<in> set xs \<Longrightarrow> find (\<lambda>y. f y = f x) xs = Some x"
  by (induction xs) (auto simp: image_iff)

lemma find_Some_mem: "find P xs = Some x \<Longrightarrow> x \<in> set xs \<and> P x"
  by (induction xs) (auto split: if_splits)

lemma get_user_SomeD:
  assumes "get_user db i = Some u"
  shows "u \<in> set (tbl_user db)" and "id_user u = i" and "sqlite_int i"
  using assms find_Some_mem[of "\<lambda>u. id_user u = i" "tbl_user db" u]
  by (simp_all add: get_user_def sqlite_int_def split: if_splits)

lemma get_user_users:
  "tbl_user db' = tbl_user db \<Longrightarrow> get_user db' i = get_user db i"
  by (simp add: get_user_def)

lemma fold_max_ge: "(i::int) \<le> fold max js i \<and> (\<forall>j\<in>set js. j \<le> fold max js i)"
proof (induction js arbitrary: i)
  case Nil
  show ?case by simp
next
  case (Cons a js)
  have "max a i \<le> fold max js (max a i)"
    using Cons.IH[of "max a i"] by simp
  then show ?case
    using Cons.IH[of "max a i"] by auto
qed

lemma next_id_fresh: "next_id ids \<notin> set ids"
proof (cases ids)
  case Nil
  then show ?thesis by simp
next
  case (Cons i js)
  show ?thesis
    using fold_max_ge[of i js] Cons by auto
qed

lemma update_by_key:
  assumes "distinct (map f xs)" and "x \<in> set xs"
  shows "map (\<lambda>y. if f y = f x then g y else y) xs = map (\<lambda>y. if y = x then g x else y) xs"
proof (rule map_cong[OF refl])
  fix y assume "y \<in> set xs"
  then have "f y = f x \<longleftrightarrow> y = x"
    using assms by (metis distinct_map inj_onD)
  then show "(if f y = f x then g y else y) = (if y = x then g x else y)"
    by auto
qed

lemma find_update_by_key:
  "find (\<lambda>x. f x = k) (map (\<lambda>x. if f x = k then g x else x) xs) =
     map_option g (find (\<lambda>x. f x = k) xs)"
  if "\<And>x. f (g x) = f x"
  using that by (induction xs) auto

lemma accept_request_commit:
  assumes "get_friend_request db rid = Some r"
    and "sess = Some (receiver_id r)"
    and "get_user db (receiver_id r) = Some u"
  shows "store_after (accept_request e rid sess db) =
           db\<lparr>tbl_friend_request :=
                 map (\<lambda>x. if id_fr x = rid then x\<lparr>status := ''accepted''\<rparr> else x)
                   (tbl_friend_request db),
               tbl_notification := tbl_notification db @
                 [\<lparr>id_note = next_id (map id_note (tbl_notification db)),
                    user_id_note = sender_id r,
                    message = username u @ '' accepted your friend request!'',
                    timestamp_note = now e\<rparr>]\<rparr>"
proof -
  have "id_fr r = rid"
    using assms(1) find_Some_mem[of "\<lambda>x. id_fr x = rid" "tbl_friend_request db" r]
    by (simp add: get_friend_request_def)
  then show ?thesis
    using assms by (simp add: accept_request_def reply_def)
qed

lemma accept_repeatedly_effect:
  assumes "get_friend_request db rid = Some r"
    and "sess = Some (receiver_id r)"
    and "get_user db (receiver_id r) = Some u"
  shows "tbl_user (accept_repeatedly es rid sess db) = tbl_user db \<and>
         tbl_friend_request (accept_repeatedly es rid sess db) =
           (if es = [] then tbl_friend_request db
            else map (\<lambda>x. if id_fr x = rid then x\<lparr>status := ''accepted''\<rparr> else x)
                   (tbl_friend_request db)) \<and>
         (\<exists>ns. tbl_notification (accept_repeatedly es rid sess db) = tbl_notification db @ ns \<and>
               length ns = length es \<and>
               (\<forall>n\<in>set ns. user_id_note n = sender_id r \<and>
                   message n = username u @ '' accepted your friend request!''))"
  using assms
proof (induction es arbitrary: db r)
  case Nil
  show ?case by (simp add: accept_repeatedly_def)
next
  case (Cons e es)
  let ?upd = "\<lambda>x. if id_fr x = rid then x\<lparr>status := ''accepted''\<rparr> else x"
  let ?n = "\<lparr>id_note = next_id (map id_note (tbl_notification db)),
              user_id_note = sender_id r,
              message = username u @ '' accepted your friend request!'',
              timestamp_note = now e\<rparr>"
  define db1 where "db1 = store_after (accept_request e rid sess db)"
  define r1 where "r1 = r\<lparr>status := ''accepted''\<rparr>"
  have db1: "db1 = db\<lparr>tbl_friend_request := map ?upd (tbl_friend_request db),
                       tbl_notification := tbl_notification db @ [?n]\<rparr>"
    unfolding db1_def using accept_request_commit[OF Cons.prems] .
  have users1: "tbl_user db1 = tbl_user db"
    and frs1: "tbl_friend_request db1 = map ?upd (tbl_friend_request db)"
    and notes1: "tbl_notification db1 = tbl_notification db @ [?n]"
    by (simp_all add: db1)
  have "find (\<lambda>x. id_fr x = rid) (tbl_friend_request db) = Some r"
    using Cons.prems(1) by (simp add: get_friend_request_def)
  then have found1: "get_friend_request db1 rid = Some r1"
    unfolding get_friend_request_def frs1 r1_def
    by (simp add: find_update_by_key[of id_fr "\<lambda>x. x\<lparr>status := ''accepted''\<rparr>" rid])
  have r1: "receiver_id r1 = receiver_id r" "sender_id r1 = sender_id r"
    by (simp_all add: r1_def)
  have sess1: "sess = Some (receiver_id r1)"
    using Cons.prems(2) by (simp add: r1(1))
  have user1: "get_user db1 (receiver_id r1) = Some u"
    using Cons.prems(3) by (simp add: get_user_users[OF users1] r1(1))
  have step: "accept_repeatedly (e # es) rid sess db = accept_repeatedly es rid sess db1"
    by (simp add: accept_repeatedly_def db1_def)
  note ih = Cons.IH[OF found1 sess1 user1, unfolded r1 users1 frs1 notes1]
  from ih obtain ns where ns:
    "tbl_notification (accept_repeatedly es rid sess db1) = (tbl_notification db @ [?n]) @ ns"
    "length ns = length es"
    "\<forall>n\<in>set ns. user_id_note n = sender_id r \<and>
        message n = username u @ '' accepted your friend request!''"
    by blast
  have idem: "map ?upd (map ?upd xs) = map ?upd xs" for xs :: "friend_request list"
    by (induction xs) simp_all
  have users: "tbl_user (accept_repeatedly (e # es) rid sess db) = tbl_user db"
    unfolding step using ih by blast
  have "tbl_friend_request (accept_repeatedly es rid sess db1) =
          (if es = [] then map ?upd (tbl_friend_request db)
           else map ?upd (map ?upd (tbl_friend_request db)))"
    using ih by blast
  then have frs: "tbl_friend_request (accept_repeatedly (e # es) rid sess db) =
               map ?upd (tbl_friend_request db)"
    unfolding step idem by (simp split: if_splits)
  have appended: "tbl_notification (accept_repeatedly (e # es) rid sess db) =
                 tbl_notification db @ (?n # ns)"
    unfolding step ns(1) by simp
  have len: "length (?n # ns) = length (e # es)"
    using ns(2) by simp
  have addr: "\<forall>n\<in>set (?n # ns). user_id_note n = sender_id r \<and>
            message n = username u @ '' accepted your friend request!''"
    using ns(3) by simp
  have "\<exists>ms. tbl_notification (accept_repeatedly (e # es) rid sess db) = tbl_notification db @ ms \<and>
          length ms = length (e # es) \<and>
          (\<forall>n\<in>set ms. user_id_note n = sender_id r \<and>
              message n = username u @ '' accepted your friend request!'')"
    using appended len addr by blast
  then show ?case
    using users frs by simp
qed

lemma send_request_cases:
  "store_after (send_request e B sess db) = db \<or>
   (\<exists>A u. sess = Some A \<and> get_user db A = Some u \<and>
      (\<forall>r\<in>set (tbl_friend_request db). \<not> (sender_id r = A \<and> receiver_id r = B)) \<and>
      store_after (send_request e B sess db) =
        db\<lparr>tbl_friend_request := tbl_friend_request db @
              [\<lparr>id_fr = next_id (map id_fr (tbl_friend_request db)),
                 sender_id = A, receiver_id = B, status = ''pending''\<rparr>],
            tbl_notification := tbl_notification db @
              [\<lparr>id_note = next_id (map id_note (tbl_notification db)),
                 user_id_note = B,
                 message = username u @ '' sent you a friend request!'',
                 timestamp_note = now e\<rparr>]\<rparr>)"
proof (cases sess)
  case None
  then show ?thesis by (simp add: send_request_def reply_def)
next
  case (Some A)
  show ?thesis
  proof (cases "sqlite_int B")
    case False
    with Some show ?thesis
      by (simp add: send_request_def reply_def)
  next
    case True
    show ?thesis
    proof (cases "find (\<lambda>r. sender_id r = A \<and> receiver_id r = B) (tbl_friend_request db)")
      case None
      then have none:
        "\<forall>r\<in>set (tbl_friend_request db). \<not> (sender_id r = A \<and> receiver_id r = B)"
        by (auto simp: find_None_iff)
      show ?thesis
      proof (cases "get_user db A")
        case None
        with \<open>sess = Some A\<close> True \<open>find _ _ = None\<close> show ?thesis
          by (simp add: send_request_def reply_def)
      next
        case (Some u)
        with \<open>sess = Some A\<close> True \<open>find _ _ = None\<close> none show ?thesis
          by (simp add: send_request_def reply_def)
      qed
    next
      case (Some r)
      with \<open>sess = Some A\<close> True show ?thesis
        by (simp add: send_request_def reply_def)
    qed
  qed
qed

lemma send_request_keeps_users:
  "tbl_user (store_after (send_request e B sess db)) = tbl_user db"
  using send_request_cases[of e B sess db] by auto

lemma send_request_keeps_keys:
  assumes "distinct (map id_fr (tbl_friend_request db))"
  shows "distinct (map id_fr (tbl_friend_request (store_after (send_request e B sess db))))"
  using send_request_cases[of e B sess db] assms
    next_id_fresh[of "map id_fr (tbl_friend_request db)"]
  by auto

lemma send_request_links:
  assumes "get_user db A = Some u" and "sqlite_int B"
  shows "\<exists>r\<in>set (tbl_friend_request (store_after (send_request e B (Some A) db))).
           sender_id r = A \<and> receiver_id r = B"
proof (cases "\<exists>r\<in>set (tbl_friend_request db). sender_id r = A \<and> receiver_id r = B")
  case True
  then have "find (\<lambda>r. sender_id r = A \<and> receiver_id r = B) (tbl_friend_request db) \<noteq> None"
    by (auto simp: find_None_iff)
  then have "store_after (send_request e B (Some A) db) = db"
    by (auto simp: send_request_def reply_def)
  with True show ?thesis by simp
next
  case False
  then have "find (\<lambda>r. sender_id r = A \<and> receiver_id r = B) (tbl_friend_request db) = None"
    by (auto simp: find_None_iff)
  then show ?thesis
    using assms by (simp add: send_request_def reply_def)
qed

lemma friends_lists:
  assumes "r \<in> set (tbl_friend_request db)" and "status r = ''accepted''"
    and "get_user db (sender_id r) = Some ua" and "get_user db (receiver_id r) = Some ub"
  shows "\<exists>fs. response (friends (Some (sender_id r)) db) = Render_friends fs \<and> ub \<in> set fs"
    and "\<exists>fs. response (friends (Some (receiver_id r)) db) = Render_friends fs \<and> ua \<in> set fs"
proof -
  have ua: "ua \<in> set (tbl_user db)" "id_user ua = sender_id r"
    using get_user_SomeD[OF assms(3)] by simp_all
  have ub: "ub \<in> set (tbl_user db)" "id_user ub = receiver_id r"
    using get_user_SomeD[OF assms(4)] by simp_all
  have "receiver_id r \<in> receiver_id `
          {x \<in> set (tbl_friend_request db). sender_id x = sender_id r \<and> status x = ''accepted''}"
    using assms(1,2) by blast
  then show "\<exists>fs. response (friends (Some (sender_id r)) db) = Render_friends fs \<and> ub \<in> set fs"
    using ub by (simp add: friends_def reply_def Let_def)
  have "sender_id r \<in> sender_id `
          {x \<in> set (tbl_friend_request db). receiver_id x = receiver_id r \<and> status x = ''accepted''}"
    using assms(1,2) by blast
  then show "\<exists>fs. response (friends (Some (receiver_id r)) db) = Render_friends fs \<and> ua \<in> set fs"
    using ua by (simp add: friends_def reply_def Let_def)
qed

lemma find_append_left:
  "find P xs = Some x \<Longrightarrow> find P (xs @ ys) = Some x"
  by (induction xs) (auto split: if_splits)

lemma find_update_other_key:
  assumes "\<And>x. f (g x) = f x"
  shows "find (\<lambda>x. f x = k') (map (\<lambda>x. if f x = k then g x else x) xs) =
           map_option (\<lambda>x. if f x = k then g x else x) (find (\<lambda>x. f x = k') xs)"
  using assms by (induction xs) auto

text \<open>What a call can do to the table of friend requests.\<close>

lemma handle_friend_requests:
  "tbl_friend_request (store_after (handle e rt sess db)) = tbl_friend_request db \<or>
   (\<exists>A B. rt = Send_request B \<and>
      tbl_friend_request (store_after (handle e rt sess db)) =
        tbl_friend_request db @
          [\<lparr>id_fr = next_id (map id_fr (tbl_friend_request db)),
             sender_id = A, receiver_id = B, status = ''pending''\<rparr>]) \<or>
   (\<exists>rid fr. rt = Accept_request rid \<and> get_friend_request db rid = Some fr \<and>
      sess = Some (receiver_id fr) \<and>
      tbl_friend_request (store_after (handle e rt sess db)) =
        map (\<lambda>x. if id_fr x = id_fr fr then x\<lparr>status := ''accepted''\<rparr> else x)
          (tbl_friend_request db)) \<or>
   (\<exists>rid fr. rt = Reject_request rid \<and> get_friend_request db rid = Some fr \<and>
      sess = Some (receiver_id fr) \<and>
      tbl_friend_request (store_after (handle e rt sess db)) =
        map (\<lambda>x. if id_fr x = id_fr fr then x\<lparr>status := ''rejected''\<rparr> else x)
          (tbl_friend_request db))"
proof (cases rt)
  case Home
  then show ?thesis by (simp add: home_def reply_def split: option.splits)
next
  case (Register req)
  then show ?thesis by (simp add: register_def reply_def Let_def split: option.splits)
next
  case (Login req)
  then show ?thesis by (simp add: login_def reply_def split: option.splits)
next
  case Logout
  then show ?thesis by (simp add: logout_def reply_def)
next
  case (Create req)
  then show ?thesis by (simp add: create_def reply_def split: option.splits)
next
  case (Edit pid req)
  then show ?thesis by (simp add: edit_def not_found_def reply_def split: option.splits)
next
  case (Delete pid)
  then show ?thesis by (simp add: delete_def not_found_def reply_def split: option.splits)
next
  case (User_posts uname)
  then show ?thesis by (simp add: user_posts_def reply_def split: option.splits)
next
  case (Send_request rcv)
  then show ?thesis
    using send_request_cases[of e rcv sess db] by auto
next
  case (Accept_request rid)
  then show ?thesis by (simp add: accept_request_def not_found_def reply_def split: option.splits)
next
  case (Reject_request rid)
  then show ?thesis by (simp add: reject_request_def not_found_def reply_def split: option.splits)
next
  case Friends
  then show ?thesis by (simp add: friends_def reply_def Let_def split: option.splits)
next
  case Friend_requests
  then show ?thesis by (simp add: friend_requests_def reply_def split: option.splits)
next
  case (Search_users req)
  then show ?thesis by (simp add: search_users_def reply_def Let_def split: option.splits)
next
  case Profile
  then show ?thesis by (simp add: profile_def reply_def split: option.splits)
next
  case (Edit_profile req)
  then show ?thesis by (simp add: edit_profile_def reply_def split: option.splits)
qed

lemma reject_request_commit:
  assumes "get_friend_request db rid = Some r"
    and "sess = Some (receiver_id r)"
    and "get_user db (receiver_id r) = Some u"
  shows "store_after (reject_request e rid sess db) =
           db\<lparr>tbl_friend_request :=
                 map (\<lambda>x. if id_fr x = rid then x\<lparr>status := ''rejected''\<rparr> else x)
                   (tbl_friend_request db),
               tbl_notification := tbl_notification db @
                 [\<lparr>id_note = next_id (map id_note (tbl_notification db)),
                    user_id_note = sender_id r,
                    message = username u @ '' rejected your friend request.'',
                    timestamp_note = now e\<rparr>]\<rparr>"
proof -
  have "id_fr r = rid"
    using assms(1) find_Some_mem[of "\<lambda>x. id_fr x = rid" "tbl_friend_request db" r]
    by (simp add: get_friend_request_def)
  then show ?thesis
    using assms by (simp add: reject_request_def reply_def)
qed




section \<open>Deleting a post\<close>

text \<open>
  Claim C9. For a stored post \<open>P\<close> (primary keys being distinct) and a session that is not
  that of \<open>P\<close>'s owner, \<open>delete\<close> on \<open>P\<close>'s id leaves the whole database and the session as
  they were and redirects to \<open>home\<close>.
\<close>

theorem delete_non_owner:
  assumes "P \<in> set (tbl_post db)"
    and "distinct (map id_post (tbl_post db))"
    and "sess \<noteq> Some (user_id_post P)"
  shows "store_after (delete (id_post P) sess db) = db \<and>
         session_after (delete (id_post P) sess db) = sess \<and>
         response (delete (id_post P) sess db) = Redirect ''home''"
proof -
  have "get_post db (id_post P) = Some P"
    unfolding get_post_def using assms(1,2) by (simp add: find_by_key)
  then show ?thesis
    using assms(3) by (simp add: delete_def reply_def)
qed

theorem delete_non_owner_witness:
  "alice_post \<in> set (tbl_post example_store) \<and>
   distinct (map id_post (tbl_post example_store)) \<and>
   Some 2 \<noteq> Some (user_id_post alice_post) \<and>
   store_after (delete 1 (Some 2) example_store) = example_store \<and>
   response (delete 1 (Some 2) example_store) = Redirect ''home''"
  using delete_non_owner[of alice_post example_store "Some 2"]
  by (simp add: example_store_def alice_post_def)

section \<open>Searching for users\<close>




section \<open>Logging in\<close>

text \<open>
  Claim C7. With usernames unique (the column is declared so), a posted login whose
  username is that of a stored user and whose password verifies against that user's hash
  binds the session to that user's id and redirects to \<open>home\<close>; when no stored user has
  the username, or the password does not verify, the session is what it was before and
  the login page is rendered. In every case the database is unchanged.
\<close>

theorem login_session:
  assumes "req_method req = POST"
    and "form req ''username'' = Some name"
    and "form req ''password'' = Some raw"
    and "distinct (map username (tbl_user db))"
  shows "(\<forall>u\<in>set (tbl_user db).
            username u = name \<and> check_password_hash e (password u) raw \<longrightarrow>
            session_after (login e req sess db) = Some (id_user u) \<and>
            response (login e req sess db) = Redirect ''home'') \<and>
         ((\<forall>u\<in>set (tbl_user db). username u = name \<longrightarrow> \<not> check_password_hash e (password u) raw) \<longrightarrow>
            session_after (login e req sess db) = sess \<and>
            response (login e req sess db) = Render_login) \<and>
         store_after (login e req sess db) = db"
proof (cases "user_by_username db name")
  case None
  then have no: "\<forall>u\<in>set (tbl_user db). username u \<noteq> name"
    by (auto simp: user_by_username_def find_None_iff)
  have out: "login e req sess db = reply Render_login [''Invalid credentials.''] sess db"
    using assms(1-3) None by (simp add: login_def)
  show ?thesis
    unfolding out reply_def using no by simp
next
  case (Some v)
  then have v: "v \<in> set (tbl_user db)" "username v = name"
    using find_Some_mem[of "\<lambda>u. username u = name" "tbl_user db" v]
    by (simp_all add: user_by_username_def)
  have uniq: "u = v" if "u \<in> set (tbl_user db)" "username u = name" for u
    using that v assms(4) by (metis distinct_map inj_onD)
  show ?thesis
  proof (cases "check_password_hash e (password v) raw")
    case True
    have out: "login e req sess db =
                 reply (Redirect ''home'') [''Login successful.''] (Some (id_user v)) db"
      using assms(1-3) Some True by (simp add: login_def)
    show ?thesis
      unfolding out reply_def using uniq v True by fastforce
  next
    case False
    have out: "login e req sess db = reply Render_login [''Invalid credentials.''] sess db"
      using assms(1-3) Some False by (simp add: login_def)
    show ?thesis
      unfolding out reply_def using uniq False by fastforce
  qed
qed

theorem login_session_witness:
  "(bob \<in> set (tbl_user example_store) \<and> username bob = ''bob'' \<and>
    check_password_hash example_env (password bob) ''hunter2'' \<and>
    session_after (login example_env (login_request ''bob'' ''hunter2'') None example_store)
      = Some 2) \<and>
   session_after (login example_env (login_request ''bob'' ''wrong'') None example_store) = None \<and>
   session_after (login example_env (login_request ''dave'' ''hunter2'') None example_store) = None"
  using login_session[of "login_request ''bob'' ''hunter2''" "''bob''" "''hunter2''" example_store
          example_env None]
    login_session[of "login_request ''bob'' ''wrong''" "''bob''" "''wrong''" example_store
          example_env None]
    login_session[of "login_request ''dave'' ''hunter2''" "''dave''" "''hunter2''" example_store
          example_env None]
  by (simp add: login_request_def example_store_def example_env_def alice_def bob_def carol_def)

section \<open>Answering a friend request\<close>

text \<open>
  Claim C2. For a stored friend request \<open>r\<close> (primary keys being distinct):
  \<open>accept_request\<close> and \<open>reject_request\<close> on \<open>r\<close>'s id commit nothing unless the session is
  that of \<open>r\<close>'s receiver; when it is, and the receiver is a stored user, they set the
  status of \<open>r\<close>, and of no other row, to accepted or rejected and append exactly one
  notification, addressed to \<open>r\<close>'s sender.
\<close>

theorem respond_receiver_only:
  assumes "r \<in> set (tbl_friend_request db)"
    and "distinct (map id_fr (tbl_friend_request db))"
  shows "(sess \<noteq> Some (receiver_id r) \<longrightarrow>
            store_after (accept_request e (id_fr r) sess db) = db \<and>
            store_after (reject_request e (id_fr r) sess db) = db) \<and>
         (\<forall>u. sess = Some (receiver_id r) \<and> get_user db (receiver_id r) = Some u \<longrightarrow>
            store_after (accept_request e (id_fr r) sess db) =
              db\<lparr>tbl_friend_request :=
                    map (\<lambda>x. if x = r then r\<lparr>status := ''accepted''\<rparr> else x)
                      (tbl_friend_request db),
                  tbl_notification := tbl_notification db @
                    [\<lparr>id_note = next_id (map id_note (tbl_notification db)),
                       user_id_note = sender_id r,
                       message = username u @ '' accepted your friend request!'',
                       timestamp_note = now e\<rparr>]\<rparr> \<and>
            store_after (reject_request e (id_fr r) sess db) =
              db\<lparr>tbl_friend_request :=
                    map (\<lambda>x. if x = r then r\<lparr>status := ''rejected''\<rparr> else x)
                      (tbl_friend_request db),
                  tbl_notification := tbl_notification db @
                    [\<lparr>id_note = next_id (map id_note (tbl_notification db)),
                       user_id_note = sender_id r,
                       message = username u @ '' rejected your friend request.'',
                       timestamp_note = now e\<rparr>]\<rparr>)"
proof -
  have found: "get_friend_request db (id_fr r) = Some r"
    unfolding get_friend_request_def using assms by (simp add: find_by_key)
  have upd: "map (\<lambda>x. if id_fr x = id_fr r then x\<lparr>status := s\<rparr> else x) (tbl_friend_request db) =
             map (\<lambda>x. if x = r then r\<lparr>status := s\<rparr> else x) (tbl_friend_request db)" for s
    using update_by_key[OF assms(2,1), of "\<lambda>x. x\<lparr>status := s\<rparr>"] .
  have other: "sess \<noteq> Some (receiver_id r) \<Longrightarrow>
        store_after (accept_request e (id_fr r) sess db) = db \<and>
        store_after (reject_request e (id_fr r) sess db) = db"
    using found by (auto simp: accept_request_def reject_request_def reply_def)
  have acc: "store_after (accept_request e (id_fr r) sess db) =
              db\<lparr>tbl_friend_request :=
                    map (\<lambda>x. if x = r then r\<lparr>status := ''accepted''\<rparr> else x)
                      (tbl_friend_request db),
                  tbl_notification := tbl_notification db @
                    [\<lparr>id_note = next_id (map id_note (tbl_notification db)),
                       user_id_note = sender_id r,
                       message = username u @ '' accepted your friend request!'',
                       timestamp_note = now e\<rparr>]\<rparr>"
    if "sess = Some (receiver_id r)" "get_user db (receiver_id r) = Some u" for u
    using found that by (simp add: accept_request_def reply_def upd)
  have rej: "store_after (reject_request e (id_fr r) sess db) =
              db\<lparr>tbl_friend_request :=
                    map (\<lambda>x. if x = r then r\<lparr>status := ''rejected''\<rparr> else x)
                      (tbl_friend_request db),
                  tbl_notification := tbl_notification db @
                    [\<lparr>id_note = next_id (map id_note (tbl_notification db)),
                       user_id_note = sender_id r,
                       message = username u @ '' rejected your friend request.'',
                       timestamp_note = now e\<rparr>]\<rparr>"
    if "sess = Some (receiver_id r)" "get_user db (receiver_id r) = Some u" for u
    using found that by (simp add: reject_request_def reply_def upd)
  show ?thesis
    using other acc rej by blast
qed

theorem respond_receiver_only_witness:
  "alice_to_bob \<in> set (tbl_friend_request pending_store) \<and>
   distinct (map id_fr (tbl_friend_request pending_store)) \<and>
   Some 3 \<noteq> Some (receiver_id alice_to_bob) \<and>
   store_after (accept_request example_env 1 (Some 3) pending_store) = pending_store \<and>
   get_user pending_store (receiver_id alice_to_bob) = Some bob \<and>
   tbl_friend_request (store_after (reject_request example_env 1 (Some 2) pending_store)) =
     [alice_to_bob\<lparr>status := ''rejected''\<rparr>] \<and>
   map user_id_note
     (tbl_notification (store_after (reject_request example_env 1 (Some 2) pending_store))) = [1]"
  using respond_receiver_only[of alice_to_bob pending_store "Some 3" example_env]
    respond_receiver_only[of alice_to_bob pending_store "Some 2" example_env]
  by (simp add: pending_store_def example_store_def alice_to_bob_def get_user_def sqlite_int_def
        alice_def bob_def carol_def)

section \<open>Sending a friend request\<close>

text \<open>
  Claim C3. When the sender \<open>A\<close> is a stored user and \<open>B\<close> is an id the database can hold
  (a signed 64-bit integer, as every user id is): if no friend request from \<open>A\<close> to \<open>B\<close> is
  stored, \<open>send_request\<close> appends one pending request from \<open>A\<close> to \<open>B\<close> and one notification
  to \<open>B\<close>, and a second call then leaves exactly one row from \<open>A\<close> to \<open>B\<close>; if such a request
  is stored, whatever its status, nothing is written. For an id beyond that range the
  call ends in a 500 and nothing is written either.
\<close>

theorem send_request_once:
  assumes "get_user db A = Some u"
  shows "(sqlite_int B \<and>
          (\<forall>r\<in>set (tbl_friend_request db). \<not> (sender_id r = A \<and> receiver_id r = B)) \<longrightarrow>
            store_after (send_request e B (Some A) db) =
              db\<lparr>tbl_friend_request := tbl_friend_request db @
                    [\<lparr>id_fr = next_id (map id_fr (tbl_friend_request db)),
                       sender_id = A, receiver_id = B, status = ''pending''\<rparr>],
                  tbl_notification := tbl_notification db @
                    [\<lparr>id_note = next_id (map id_note (tbl_notification db)),
                       user_id_note = B,
                       message = username u @ '' sent you a friend request!'',
                       timestamp_note = now e\<rparr>]\<rparr> \<and>
            length (filter (\<lambda>r. sender_id r = A \<and> receiver_id r = B)
                      (tbl_friend_request
                         (store_after (send_request e' B (Some A)
                            (store_after (send_request e B (Some A) db)))))) = 1) \<and>
         ((\<exists>r\<in>set (tbl_friend_request db). sender_id r = A \<and> receiver_id r = B) \<longrightarrow>
            store_after (send_request e B (Some A) db) = db) \<and>
         (\<not> sqlite_int B \<longrightarrow>
            store_after (send_request e B (Some A) db) = db \<and>
            response (send_request e B (Some A) db) = Server_Error)"
proof -
  let ?P = "\<lambda>r. sender_id r = A \<and> receiver_id r = B"
  let ?new = "\<lparr>id_fr = next_id (map id_fr (tbl_friend_request db)),
                sender_id = A, receiver_id = B, status = ''pending''\<rparr>"
  have dup: "store_after (send_request e0 B (Some A) d) = d"
    if "\<exists>r\<in>set (tbl_friend_request d). ?P r" for d e0
  proof -
    from that have "find ?P (tbl_friend_request d) \<noteq> None"
      by (auto simp: find_None_iff)
    then show ?thesis
      by (auto simp: send_request_def reply_def)
  qed
  have fresh: "store_after (send_request e B (Some A) db) =
              db\<lparr>tbl_friend_request := tbl_friend_request db @ [?new],
                  tbl_notification := tbl_notification db @
                    [\<lparr>id_note = next_id (map id_note (tbl_notification db)),
                       user_id_note = B,
                       message = username u @ '' sent you a friend request!'',
                       timestamp_note = now e\<rparr>]\<rparr>"
    if range: "sqlite_int B" and none: "\<forall>r\<in>set (tbl_friend_request db). \<not> ?P r"
  proof -
    from none have "find ?P (tbl_friend_request db) = None"
      by (auto simp: find_None_iff)
    then show ?thesis
      using assms range by (simp add: send_request_def reply_def)
  qed
  have twice: "length (filter ?P (tbl_friend_request
                         (store_after (send_request e' B (Some A)
                            (store_after (send_request e B (Some A) db)))))) = 1"
    if range: "sqlite_int B" and none: "\<forall>r\<in>set (tbl_friend_request db). \<not> ?P r"
  proof -
    let ?db1 = "store_after (send_request e B (Some A) db)"
    have frs1: "tbl_friend_request ?db1 = tbl_friend_request db @ [?new]"
      by (simp add: fresh[OF range none])
    have "\<exists>r\<in>set (tbl_friend_request ?db1). ?P r"
      unfolding frs1 by simp
    then have "store_after (send_request e' B (Some A) ?db1) = ?db1"
      by (rule dup)
    moreover have "filter ?P (tbl_friend_request db) = []"
      using none by (simp add: filter_empty_conv)
    ultimately show ?thesis
      by (simp add: frs1)
  qed
  have big: "store_after (send_request e B (Some A) db) = db \<and>
             response (send_request e B (Some A) db) = Server_Error" if "\<not> sqlite_int B"
    using that by (simp add: send_request_def reply_def)
  show ?thesis
    using dup[of db e] fresh twice big by blast
qed

theorem send_request_once_witness:
  "get_user example_store 1 = Some alice \<and> sqlite_int 2 \<and>
   tbl_friend_request (store_after (send_request example_env 2 (Some 1) example_store)) =
     [alice_to_bob] \<and>
   map user_id_note
     (tbl_notification (store_after (send_request example_env 2 (Some 1) example_store))) = [2] \<and>
   get_user pending_store 1 = Some alice \<and>
   store_after (send_request example_env 2 (Some 1) pending_store) = pending_store \<and>
   \<not> sqlite_int 9223372036854775808 \<and>
   response (send_request example_env 9223372036854775808 (Some 1) example_store) = Server_Error"
  using send_request_once[of example_store 1 alice 2 example_env example_env]
    send_request_once[of pending_store 1 alice 2 example_env example_env]
    send_request_once[of example_store 1 alice 9223372036854775808 example_env example_env]
  by (simp add: pending_store_def example_store_def alice_to_bob_def get_user_def sqlite_int_def
        alice_def bob_def carol_def)

section \<open>Accepting more than once\<close>

text \<open>
  Claim C10. When the receiver of a stored request (itself a stored user) calls
  \<open>accept_request\<close> on it \<open>n\<close> times, \<open>n\<close> notifications addressed to the sender are
  appended, the status is accepted after the first call and stays so, and one more call
  always yields a different database: the call is not idempotent.
\<close>

theorem accept_request_not_idempotent:
  assumes "get_friend_request db rid = Some r"
    and "sess = Some (receiver_id r)"
    and "get_user db (receiver_id r) = Some u"
  shows "(\<exists>ns. tbl_notification (accept_repeatedly es rid sess db) = tbl_notification db @ ns \<and>
               length ns = length es \<and> (\<forall>n\<in>set ns. user_id_note n = sender_id r)) \<and>
         (es \<noteq> [] \<longrightarrow>
            get_friend_request (accept_repeatedly es rid sess db) rid =
              Some (r\<lparr>status := ''accepted''\<rparr>)) \<and>
         accept_repeatedly (es @ [e]) rid sess db \<noteq> accept_repeatedly es rid sess db"
proof -
  let ?upd = "\<lambda>x. if id_fr x = rid then x\<lparr>status := ''accepted''\<rparr> else x"
  have eff: "tbl_friend_request (accept_repeatedly xs rid sess db) =
               (if xs = [] then tbl_friend_request db else map ?upd (tbl_friend_request db))"
    and eff_notes: "\<exists>ns. tbl_notification (accept_repeatedly xs rid sess db) =
                          tbl_notification db @ ns \<and> length ns = length xs \<and>
                          (\<forall>n\<in>set ns. user_id_note n = sender_id r)" for xs
    using accept_repeatedly_effect[OF assms, of xs] by blast+
  have st: "get_friend_request (accept_repeatedly es rid sess db) rid =
              Some (r\<lparr>status := ''accepted''\<rparr>)" if "es \<noteq> []"
  proof -
    have "find (\<lambda>x. id_fr x = rid) (tbl_friend_request db) = Some r"
      using assms(1) by (simp add: get_friend_request_def)
    then show ?thesis
      unfolding get_friend_request_def eff using that
      by (simp add: find_update_by_key[of id_fr "\<lambda>x. x\<lparr>status := ''accepted''\<rparr>" rid])
  qed
  have len: "length (tbl_notification (accept_repeatedly xs rid sess db)) =
             length (tbl_notification db) + length xs" for xs
  proof -
    from eff_notes[of xs] obtain ns where
      "tbl_notification (accept_repeatedly xs rid sess db) = tbl_notification db @ ns"
      "length ns = length xs"
      by blast
    then show ?thesis by simp
  qed
  have "length (tbl_notification (accept_repeatedly (es @ [e]) rid sess db)) \<noteq>
        length (tbl_notification (accept_repeatedly es rid sess db))"
    unfolding len by simp
  then have "accept_repeatedly (es @ [e]) rid sess db \<noteq> accept_repeatedly es rid sess db"
    by metis
  with eff_notes[of es] st show ?thesis
    by blast
qed

theorem accept_request_not_idempotent_witness:
  "get_friend_request pending_store 1 = Some alice_to_bob \<and>
   Some 2 = Some (receiver_id alice_to_bob) \<and>
   get_user pending_store (receiver_id alice_to_bob) = Some bob \<and>
   get_friend_request
     (accept_repeatedly [example_env, example_env, example_env] 1 (Some 2) pending_store) 1 =
     Some (alice_to_bob\<lparr>status := ''accepted''\<rparr>) \<and>
   map user_id_note
     (tbl_notification
        (accept_repeatedly [example_env, example_env, example_env] 1 (Some 2) pending_store)) =
     [1, 1, 1]"
proof -
  have h1: "get_friend_request pending_store 1 = Some alice_to_bob"
    by (simp add: get_friend_request_def pending_store_def alice_to_bob_def)
  have h2: "Some 2 = Some (receiver_id alice_to_bob)"
    by (simp add: alice_to_bob_def)
  have h3: "get_user pending_store (receiver_id alice_to_bob) = Some bob"
    by (simp add: get_user_def sqlite_int_def pending_store_def example_store_def alice_to_bob_def
          alice_def bob_def)
  note inst = accept_request_not_idempotent[OF h1 h2 h3,
      of "[example_env, example_env, example_env]" example_env]
  from inst obtain ns where ns:
    "tbl_notification
       (accept_repeatedly [example_env, example_env, example_env] 1 (Some 2) pending_store) =
     tbl_notification pending_store @ ns"
    "length ns = 3" "\<forall>n\<in>set ns. user_id_note n = sender_id alice_to_bob"
    by auto
  have "tbl_notification pending_store = []"
    by (simp add: pending_store_def example_store_def)
  moreover from ns(2) obtain a b c where "ns = [a, b, c]"
    by (auto simp: length_Suc_conv numeral_3_eq_3)
  moreover have "sender_id alice_to_bob = 1"
    by (simp add: alice_to_bob_def)
  ultimately have "map user_id_note
     (tbl_notification
        (accept_repeatedly [example_env, example_env, example_env] 1 (Some 2) pending_store)) =
     [1, 1, 1]"
    using ns(1,3) by simp
  with h1 h2 h3 inst show ?thesis
    by simp
qed

section \<open>Friends after an accepted request\<close>

text \<open>
  Claim C6. For stored users \<open>A\<close> and \<open>B\<close> (primary keys of the requests being distinct):
  after \<open>A\<close> calls \<open>send_request\<close> for \<open>B\<close> there is a stored request from \<open>A\<close> to \<open>B\<close>,
  and once \<open>B\<close> has called \<open>accept_request\<close> on it, the list rendered by \<open>friends\<close>
  for \<open>A\<close> contains \<open>B\<close> and the list rendered for \<open>B\<close> contains \<open>A\<close>.
\<close>

theorem friends_after_accept:
  assumes "get_user db A = Some ua" and "get_user db B = Some ub"
    and "distinct (map id_fr (tbl_friend_request db))"
  shows "let db1 = store_after (send_request e1 B (Some A) db) in
           (\<exists>r\<in>set (tbl_friend_request db1). sender_id r = A \<and> receiver_id r = B) \<and>
           (\<forall>r\<in>set (tbl_friend_request db1). sender_id r = A \<and> receiver_id r = B \<longrightarrow>
              (let db2 = store_after (accept_request e2 (id_fr r) (Some B) db1) in
                 (\<exists>fs. response (friends (Some A) db2) = Render_friends fs \<and> ub \<in> set fs) \<and>
                 (\<exists>fs. response (friends (Some B) db2) = Render_friends fs \<and> ua \<in> set fs)))"
proof -
  define db1 where "db1 = store_after (send_request e1 B (Some A) db)"
  have users1: "tbl_user db1 = tbl_user db"
    unfolding db1_def by (rule send_request_keeps_users)
  have keys1: "distinct (map id_fr (tbl_friend_request db1))"
    unfolding db1_def using assms(3) by (rule send_request_keeps_keys)
  have link: "\<exists>r\<in>set (tbl_friend_request db1). sender_id r = A \<and> receiver_id r = B"
    unfolding db1_def using assms(1) get_user_SomeD(3)[OF assms(2)] by (rule send_request_links)
  have after: "(\<exists>fs. response (friends (Some A)
                    (store_after (accept_request e2 (id_fr r) (Some B) db1))) = Render_friends fs \<and>
                    ub \<in> set fs) \<and>
               (\<exists>fs. response (friends (Some B)
                    (store_after (accept_request e2 (id_fr r) (Some B) db1))) = Render_friends fs \<and>
                    ua \<in> set fs)"
    if r: "r \<in> set (tbl_friend_request db1)" "sender_id r = A" "receiver_id r = B" for r
  proof -
    let ?upd = "\<lambda>x. if id_fr x = id_fr r then x\<lparr>status := ''accepted''\<rparr> else x"
    define db2 where "db2 = store_after (accept_request e2 (id_fr r) (Some B) db1)"
    have found: "get_friend_request db1 (id_fr r) = Some r"
      unfolding get_friend_request_def using keys1 r(1) by (simp add: find_by_key)
    have userB: "get_user db1 (receiver_id r) = Some ub"
      using assms(2) r(3) by (simp add: get_user_users[OF users1])
    have db2: "db2 = db1\<lparr>tbl_friend_request := map ?upd (tbl_friend_request db1),
                 tbl_notification := tbl_notification db1 @
                   [\<lparr>id_note = next_id (map id_note (tbl_notification db1)),
                      user_id_note = sender_id r,
                      message = username ub @ '' accepted your friend request!'',
                      timestamp_note = now e2\<rparr>]\<rparr>"
      unfolding db2_def using accept_request_commit[OF found _ userB, of "Some B" e2] r(3)
      by simp
    let ?r' = "r\<lparr>status := ''accepted''\<rparr>"
    have "?upd r \<in> ?upd ` set (tbl_friend_request db1)"
      using r(1) by (rule imageI)
    then have mem: "?r' \<in> set (tbl_friend_request db2)"
      by (simp add: db2)
    have st: "status ?r' = ''accepted''"
      by simp
    have ua2: "get_user db2 (sender_id ?r') = Some ua"
      using assms(1) r(2) by (simp add: get_user_def db2 users1 cong: if_cong)
    have ub2: "get_user db2 (receiver_id ?r') = Some ub"
      using assms(2) r(3) by (simp add: get_user_def db2 users1 cong: if_cong)
    from friends_lists[OF mem st ua2 ub2] show ?thesis
      using r(2,3) by (simp add: db2_def)
  qed
  from link after show ?thesis
    unfolding Let_def db1_def by blast
qed

theorem friends_after_accept_witness:
  "get_user example_store 1 = Some alice \<and> get_user example_store 2 = Some bob \<and>
   distinct (map id_fr (tbl_friend_request example_store)) \<and>
   tbl_friend_request (store_after (send_request example_env 2 (Some 1) example_store)) =
     [alice_to_bob] \<and>
   response (friends (Some 1)
      (store_after (accept_request example_env 1 (Some 2)
         (store_after (send_request example_env 2 (Some 1) example_store))))) =
     Render_friends [bob] \<and>
   response (friends (Some 2)
      (store_after (accept_request example_env 1 (Some 2)
         (store_after (send_request example_env 2 (Some 1) example_store))))) =
     Render_friends [alice]"
proof -
  have h1: "get_user example_store 1 = Some alice"
    by (simp add: get_user_def sqlite_int_def example_store_def alice_def)
  have h2: "get_user example_store 2 = Some bob"
    by (simp add: get_user_def sqlite_int_def example_store_def alice_def bob_def)
  have h3: "distinct (map id_fr (tbl_friend_request example_store))"
    by (simp add: example_store_def)
  note inst = friends_after_accept[OF h1 h2 h3, of example_env example_env]
  have sent: "tbl_friend_request (store_after (send_request example_env 2 (Some 1) example_store)) =
     [alice_to_bob]"
    using h1
    by (simp add: send_request_def reply_def sqlite_int_def example_store_def alice_to_bob_def)
  have fs: "response (friends (Some 1)
      (store_after (accept_request example_env 1 (Some 2)
         (store_after (send_request example_env 2 (Some 1) example_store))))) =
     Render_friends [bob] \<and>
   response (friends (Some 2)
      (store_after (accept_request example_env 1 (Some 2)
         (store_after (send_request example_env 2 (Some 1) example_store))))) =
     Render_friends [alice]"
    by (simp add: friends_def accept_request_def send_request_def reply_def get_user_def sqlite_int_def
          get_friend_request_def example_store_def alice_def bob_def carol_def Let_def)
  from h1 h2 h3 inst sent fs show ?thesis
    by simp
qed

section \<open>Routes called without a session\<close>

text \<open>
  Claim C8, as amended. Without a session, every route that consults the session leaves
  the database as it was and opens no session. \<open>home\<close>, \<open>create\<close>, \<open>send_request\<close>,
  \<open>friends\<close>, \<open>friend_requests\<close>, \<open>search_users\<close>, \<open>profile\<close> and \<open>edit_profile\<close> redirect to
  \<open>login\<close>. \<open>edit\<close> and \<open>delete\<close> look the post up first: when it is stored, the owner
  comparison with \<open>session.get('user_id')\<close> fails and they redirect to \<open>home\<close>; when it is
  not, they answer 404, or 500 for an id beyond the 64-bit range of the database.
  \<open>accept_request\<close> and \<open>reject_request\<close> likewise: a redirect to \<open>friend_requests\<close> for a
  stored request, otherwise 404, or 500 for an id beyond that range.
\<close>

theorem no_session_no_write:
  assumes "protected r"
  shows "store_after (handle e r None db) = db \<and>
         session_after (handle e r None db) = None \<and>
         response (handle e r None db) =
           (case r of
              Edit pid req \<Rightarrow>
                if get_post db pid \<noteq> None then Redirect ''home''
                else if sqlite_int pid then Abort 404 else Server_Error
            | Delete pid \<Rightarrow>
                if get_post db pid \<noteq> None then Redirect ''home''
                else if sqlite_int pid then Abort 404 else Server_Error
            | Accept_request rid \<Rightarrow>
                if get_friend_request db rid \<noteq> None then Redirect ''friend_requests''
                else if sqlite_int rid then Abort 404 else Server_Error
            | Reject_request rid \<Rightarrow>
                if get_friend_request db rid \<noteq> None then Redirect ''friend_requests''
                else if sqlite_int rid then Abort 404 else Server_Error
            | _ \<Rightarrow> Redirect ''login'')"
proof (cases r)
  case Home
  then show ?thesis by (simp add: home_def reply_def)
next
  case (Register req)
  with assms show ?thesis by simp
next
  case (Login req)
  with assms show ?thesis by simp
next
  case Logout
  with assms show ?thesis by simp
next
  case (Create req)
  then show ?thesis by (simp add: create_def reply_def)
next
  case (Edit pid req)
  then show ?thesis by (simp add: edit_def not_found_def reply_def split: option.splits)
next
  case (Delete pid)
  then show ?thesis by (simp add: delete_def not_found_def reply_def split: option.splits)
next
  case (User_posts uname)
  with assms show ?thesis by simp
next
  case (Send_request rcv)
  then show ?thesis by (simp add: send_request_def reply_def)
next
  case (Accept_request rid)
  then show ?thesis by (simp add: accept_request_def not_found_def reply_def split: option.splits)
next
  case (Reject_request rid)
  then show ?thesis by (simp add: reject_request_def not_found_def reply_def split: option.splits)
next
  case Friends
  then show ?thesis by (simp add: friends_def reply_def)
next
  case Friend_requests
  then show ?thesis by (simp add: friend_requests_def reply_def)
next
  case (Search_users req)
  then show ?thesis by (simp add: search_users_def reply_def)
next
  case Profile
  then show ?thesis by (simp add: profile_def reply_def)
next
  case (Edit_profile req)
  then show ?thesis by (simp add: edit_profile_def reply_def)
qed

theorem no_session_no_write_witness:
  "protected (Delete 1) \<and> protected Friends \<and>
   store_after (handle example_env (Delete 1) None example_store) = example_store \<and>
   response (handle example_env (Delete 1) None example_store) = Redirect ''home'' \<and>
   response (handle example_env (Delete 7) None example_store) = Abort 404 \<and>
   response (handle example_env (Delete 9223372036854775808) None example_store) =
     Server_Error \<and>
   response (handle example_env Friends None example_store) = Redirect ''login''"
  using no_session_no_write[of "Delete 1" example_env example_store]
    no_session_no_write[of "Delete 7" example_env example_store]
    no_session_no_write[of "Delete 9223372036854775808" example_env example_store]
    no_session_no_write[of Friends example_env example_store]
  by (simp add: get_post_def sqlite_int_def example_store_def alice_post_def)

text \<open>
  Claim C8 as stated asks for a redirect to \<open>login\<close> from every protected route. \<open>delete\<close>
  on a stored post and \<open>accept_request\<close> on a stored request, both without a session,
  answer with another redirect.
\<close>

theorem no_session_login_redirect_counterexample:
  "protected (Delete 1) \<and>
   response (handle example_env (Delete 1) None example_store) \<noteq> Redirect ''login'' \<and>
   protected (Accept_request 1) \<and>
   response (handle example_env (Accept_request 1) None pending_store) \<noteq> Redirect ''login''"
  by (simp add: delete_def accept_request_def get_post_def get_friend_request_def reply_def
        example_store_def pending_store_def alice_post_def alice_to_bob_def)

section \<open>Status transitions\<close>

text \<open>
  Claim C4, as amended. For a stored friend request \<open>r\<close> (primary keys being distinct) and
  any route, session and inputs: after the call the row of \<open>r\<close> is still there, and it is
  either unchanged, or the call was \<open>accept_request\<close> on \<open>r\<close> by \<open>r\<close>'s receiver and only
  the status changed, to accepted, or it was \<open>reject_request\<close> on \<open>r\<close> by \<open>r\<close>'s receiver and
  only the status changed, to rejected. Neither handler looks at the status before: called
  by the receiver (a stored user), each sets its status whatever the status was.
\<close>

theorem status_changes_only_by_receiver:
  assumes "r \<in> set (tbl_friend_request db)"
    and "distinct (map id_fr (tbl_friend_request db))"
  shows "(\<exists>r'. get_friend_request (store_after (handle e rt sess db)) (id_fr r) = Some r' \<and>
            (r' = r \<or>
             rt = Accept_request (id_fr r) \<and> sess = Some (receiver_id r) \<and>
               r' = r\<lparr>status := ''accepted''\<rparr> \<or>
             rt = Reject_request (id_fr r) \<and> sess = Some (receiver_id r) \<and>
               r' = r\<lparr>status := ''rejected''\<rparr>)) \<and>
         (\<forall>u. get_user db (receiver_id r) = Some u \<longrightarrow>
            get_friend_request
              (store_after (handle e (Accept_request (id_fr r)) (Some (receiver_id r)) db))
              (id_fr r) = Some (r\<lparr>status := ''accepted''\<rparr>) \<and>
            get_friend_request
              (store_after (handle e (Reject_request (id_fr r)) (Some (receiver_id r)) db))
              (id_fr r) = Some (r\<lparr>status := ''rejected''\<rparr>))"
proof -
  let ?frs = "tbl_friend_request db"
  let ?frs' = "tbl_friend_request (store_after (handle e rt sess db))"
  have found: "find (\<lambda>x. id_fr x = id_fr r) ?frs = Some r"
    using assms by (simp add: find_by_key)
  have get: "get_friend_request db (id_fr r) = Some r"
    using found by (simp add: get_friend_request_def)
  have same: "fr = r" if "get_friend_request db rid = Some fr" "id_fr r = rid" for fr rid
    using that get by simp
  have upd: "find (\<lambda>x. id_fr x = id_fr r)
               (map (\<lambda>x. if id_fr x = k then x\<lparr>status := s\<rparr> else x) ?frs) =
             Some (if id_fr r = k then r\<lparr>status := s\<rparr> else r)" for k s
    using found by (simp add: find_update_other_key[of id_fr "\<lambda>x. x\<lparr>status := s\<rparr>"])
  have first: "\<exists>r'. get_friend_request (store_after (handle e rt sess db)) (id_fr r) = Some r' \<and>
            (r' = r \<or>
             rt = Accept_request (id_fr r) \<and> sess = Some (receiver_id r) \<and>
               r' = r\<lparr>status := ''accepted''\<rparr> \<or>
             rt = Reject_request (id_fr r) \<and> sess = Some (receiver_id r) \<and>
               r' = r\<lparr>status := ''rejected''\<rparr>)"
  proof -
    consider
      (same) "?frs' = ?frs"
    | (new) A B where "?frs' = ?frs @ [\<lparr>id_fr = next_id (map id_fr ?frs),
                          sender_id = A, receiver_id = B, status = ''pending''\<rparr>]"
    | (acc) rid fr where "rt = Accept_request rid" "get_friend_request db rid = Some fr"
        "sess = Some (receiver_id fr)"
        "?frs' = map (\<lambda>x. if id_fr x = id_fr fr then x\<lparr>status := ''accepted''\<rparr> else x) ?frs"
    | (rej) rid fr where "rt = Reject_request rid" "get_friend_request db rid = Some fr"
        "sess = Some (receiver_id fr)"
        "?frs' = map (\<lambda>x. if id_fr x = id_fr fr then x\<lparr>status := ''rejected''\<rparr> else x) ?frs"
      using handle_friend_requests[of e rt sess db] by blast
    then show ?thesis
    proof cases
      case same
      then show ?thesis
        using found by (simp add: get_friend_request_def)
    next
      case new
      then show ?thesis
        using find_append_left[OF found] by (simp add: get_friend_request_def)
    next
      case acc
      have key: "id_fr fr = rid"
        using acc(2) find_Some_mem[of "\<lambda>x. id_fr x = rid" ?frs fr]
        by (simp add: get_friend_request_def)
      show ?thesis
      proof (cases "id_fr r = rid")
        case True
        then have "fr = r"
          using same[OF acc(2)] by simp
        then show ?thesis
          using acc True upd[of "id_fr r" "''accepted''"] by (simp add: get_friend_request_def)
      next
        case False
        then show ?thesis
          using acc(4) key upd[of rid "''accepted''"] by (simp add: get_friend_request_def)
      qed
    next
      case rej
      have key: "id_fr fr = rid"
        using rej(2) find_Some_mem[of "\<lambda>x. id_fr x = rid" ?frs fr]
        by (simp add: get_friend_request_def)
      show ?thesis
      proof (cases "id_fr r = rid")
        case True
        then have "fr = r"
          using same[OF rej(2)] by simp
        then show ?thesis
          using rej True upd[of "id_fr r" "''rejected''"] by (simp add: get_friend_request_def)
      next
        case False
        then show ?thesis
          using rej(4) key upd[of rid "''rejected''"] by (simp add: get_friend_request_def)
      qed
    qed
  qed
  have second: "get_friend_request
              (store_after (handle e (Accept_request (id_fr r)) (Some (receiver_id r)) db))
              (id_fr r) = Some (r\<lparr>status := ''accepted''\<rparr>) \<and>
            get_friend_request
              (store_after (handle e (Reject_request (id_fr r)) (Some (receiver_id r)) db))
              (id_fr r) = Some (r\<lparr>status := ''rejected''\<rparr>)"
    if "get_user db (receiver_id r) = Some u" for u
    using accept_request_commit[OF get refl that, of e] reject_request_commit[OF get refl that, of e]
      upd[of "id_fr r" "''accepted''"] upd[of "id_fr r" "''rejected''"]
    by (simp add: get_friend_request_def)
  from first second show ?thesis
    by blast
qed

theorem status_changes_only_by_receiver_witness:
  "alice_to_bob\<lparr>status := ''accepted''\<rparr> \<in> set (tbl_friend_request accepted_store) \<and>
   distinct (map id_fr (tbl_friend_request accepted_store)) \<and>
   get_user accepted_store 2 = Some bob \<and>
   get_friend_request (store_after (handle example_env (Reject_request 1) (Some 2) accepted_store)) 1
     = Some (alice_to_bob\<lparr>status := ''rejected''\<rparr>) \<and>
   get_friend_request (store_after (handle example_env (Reject_request 1) (Some 3) accepted_store)) 1
     = Some (alice_to_bob\<lparr>status := ''accepted''\<rparr>)"
proof -
  let ?r = "alice_to_bob\<lparr>status := ''accepted''\<rparr>"
  have h1: "?r \<in> set (tbl_friend_request accepted_store)"
    by (simp add: accepted_store_def)
  have h2: "distinct (map id_fr (tbl_friend_request accepted_store))"
    by (simp add: accepted_store_def)
  have h3: "get_user accepted_store 2 = Some bob"
    by (simp add: get_user_def sqlite_int_def accepted_store_def example_store_def alice_def bob_def)
  have ids: "id_fr ?r = 1" "receiver_id ?r = 2"
    by (simp_all add: alice_to_bob_def)
  note by_bob = status_changes_only_by_receiver[OF h1 h2,
      of example_env "Reject_request 1" "Some 2", unfolded ids]
  note by_carol = status_changes_only_by_receiver[OF h1 h2,
      of example_env "Reject_request 1" "Some 3", unfolded ids]
  have a: "get_friend_request
             (store_after (handle example_env (Reject_request 1) (Some 2) accepted_store)) 1
           = Some (alice_to_bob\<lparr>status := ''rejected''\<rparr>)"
    using by_bob h3 by simp
  have b: "get_friend_request
             (store_after (handle example_env (Reject_request 1) (Some 3) accepted_store)) 1
           = Some ?r"
    using by_carol by auto
  from h1 h2 h3 a b show ?thesis
    by simp
qed

text \<open>
  Claim C4 as stated allows no change of an accepted or rejected request. The receiver
  accepts a pending request and then rejects it: the status goes from accepted to
  rejected.
\<close>

theorem status_monotonic_counterexample:
  "map status (tbl_friend_request
     (store_after (handle example_env (Accept_request 1) (Some 2) pending_store))) =
     [''accepted''] \<and>
   map status (tbl_friend_request
     (store_after (handle example_env (Reject_request 1) (Some 2)
        (store_after (handle example_env (Accept_request 1) (Some 2) pending_store))))) =
     [''rejected'']"
  by (simp add: accept_request_def reject_request_def reply_def get_user_def sqlite_int_def
        get_friend_request_def pending_store_def example_store_def alice_to_bob_def
        alice_def bob_def)


section \<open>Requests to users that do not exist\<close>

text \<open>
  Claim C5 asks that every stored friend request names an existing receiver.
  \<open>send_request\<close> takes the receiver id from the URL and stores it unchecked: with alice
  logged in and no user 999, the call appends a pending request from 1 to 999 and a
  notification for 999.
\<close>

theorem send_request_unknown_receiver:
  "get_user example_store 999 = None \<and>
   tbl_friend_request (store_after (send_request example_env 999 (Some 1) example_store)) =
     [\<lparr>id_fr = 1, sender_id = 1, receiver_id = 999, status = ''pending''\<rparr>] \<and>
   map user_id_note
     (tbl_notification (store_after (send_request example_env 999 (Some 1) example_store))) =
     [999] \<and>
   get_user (store_after (send_request example_env 999 (Some 1) example_store)) 999 = None"
  by (simp add: send_request_def reply_def get_user_def sqlite_int_def example_store_def
        alice_def bob_def carol_def)

end
